theory Spec2Isabelle
  imports Complex_Main
begin

section \<open>Vintage ladder filters: data model\<close>

text \<open>
  The development embeds \<^verbatim>\<open>src/common/dsp/filters/VintageLadders.cpp\<close>.
  The C++ scalars (\<^verbatim>\<open>float\<close>, \<^verbatim>\<open>double\<close>) are embedded as \<^typ>\<open>real\<close>:
  arithmetic is exact, \<^verbatim>\<open>M_PI\<close> is \<^term>\<open>pi\<close>, and \<^verbatim>\<open>tanh\<close>, \<^verbatim>\<open>exp\<close> are the
  functions of the same name. In the sample-processing functions the conversions
  between \<^verbatim>\<open>float\<close> and \<^verbatim>\<open>double\<close> are identities and decimal literals stand for
  their decimal value. In the frequency utility and the coefficient makers, the
  values that the code fixes in single precision are rounded to single precision:
  the literals with suffix \<^verbatim>\<open>f\<close>, the explicit casts to \<^verbatim>\<open>float\<close>, and the literals
  assigned to a cell of the \<^verbatim>\<open>float\<close> array \<^verbatim>\<open>C\<close>. A C array is a function from its
  index to the cell, updated cell by cell; loops over a fixed index range are folds
  over that range.
\<close>

text \<open>
  Rounding to single precision (binary32): to the nearest multiple of the unit in the
  last place of the 24-bit significand, ties to the even significand. The exponent is
  not bounded, so the function is the conversion of the code on the normal range of
  binary32.
\<close>

definition round_even :: "real \<Rightarrow> int" where
  "round_even y =
     (let n = \<lfloor>y\<rfloor>; r = y - of_int n
      in if r < 1 / 2 then n else if 1 / 2 < r then n + 1 else if even n then n else n + 1)"

definition to_float :: "real \<Rightarrow> real" where
  "to_float x =
     (if x = 0 then 0
      else (let ulp = 2 powr (of_int \<lfloor>log 2 \<bar>x\<bar>\<rfloor> - 23)
            in of_int (round_even (x / ulp)) * ulp))"

text \<open>
  The internal (oversampled) sample rate is fixed by the host, outside the file. Audio
  hosts run at 8 kHz and above, and the type holds these rates, in Hz.
\<close>

typedef sample_rate = "{r :: real. 8000 \<le> r}"
  morphisms hz sample_rate_of
  by (rule exI [of _ 8000]) simp

text \<open>
  The globals of the host that the file reads: the internal sample rate, its
  reciprocal, and \<^verbatim>\<open>Tunings::MIDI_0_FREQ\<close>. Their declarations are outside the
  file, so they are fields of an environment handed to every function that reads one.
\<close>

record globals =
  dsamplerate_os :: sample_rate
  dsamplerate_os_inv :: real
  MIDI_0_FREQ :: real

text \<open>
  \<^verbatim>\<open>SurgeStorage\<close>: the file calls \<^verbatim>\<open>note_to_pitch_ignoring_tuning\<close> only.

  Modelled from the spec: \<open>note_to_pitch\<close> is the tuning-aware conversion of the host
  that the specification speaks of; the class \<^verbatim>\<open>SurgeStorage\<close> is declared outside
  the file, and the file never calls this member.
\<close>

record SurgeStorage =
  note_to_pitch :: "real \<Rightarrow> real"
  note_to_pitch_ignoring_tuning :: "real \<Rightarrow> real"

text \<open>
  An \<^verbatim>\<open>__m128\<close> packs four lanes. \<^verbatim>\<open>_mm_store_ps\<close> copies the lanes into an array of
  four cells and \<^verbatim>\<open>_mm_load_ps\<close> packs four cells again. The lanes of a register are
  reals; the lanes of a value loaded from an array whose cells may never have been
  written are optional, \<open>None\<close> standing for a cell that was never written.
\<close>

datatype 'a m128 = M128 'a 'a 'a 'a

fun lane :: "'a m128 \<Rightarrow> nat \<Rightarrow> 'a" where
  "lane (M128 a b c d) v = (if v = 0 then a else if v = 1 then b else if v = 2 then c else d)"

definition mm_store_ps :: "'a m128 \<Rightarrow> nat \<Rightarrow> 'a" where
  "mm_store_ps a = (\<lambda>v. lane a v)"

definition mm_load_ps :: "(nat \<Rightarrow> 'a) \<Rightarrow> 'a m128" where
  "mm_load_ps p = M128 (p 0) (p 1) (p 2) (p 3)"

text \<open>
  A \<^verbatim>\<open>for\<close> loop whose index runs from \<open>lo\<close> up to \<open>hi\<close> (excluded), its body acting
  on the variables the loop changes.
\<close>

definition for_range :: "nat \<Rightarrow> nat \<Rightarrow> (nat \<Rightarrow> 's \<Rightarrow> 's) \<Rightarrow> 's \<Rightarrow> 's" where
  "for_range lo hi body s = fold body [lo..<hi] s"

text \<open>
  A local array of scalars before its first write. Every cell the code reads has been
  written before, so the content given here is never observed.
\<close>

definition uninit :: "nat \<Rightarrow> real" where
  "uninit = (\<lambda>_. 0)"

text \<open>
  \<^verbatim>\<open>QuadFilterUnitState\<close>: the coefficient block, the register block and the flags of
  the four lanes; the file touches no other member.
\<close>

record QuadFilterUnitState =
  C :: "nat \<Rightarrow> real m128"
  R :: "nat \<Rightarrow> real m128"
  active :: "nat \<Rightarrow> int"

definition ssew :: nat where "ssew = 4"

text \<open>\<^verbatim>\<open>FilterCoefficientMaker\<close>: the file writes the array \<^verbatim>\<open>C\<close> only.\<close>

record FilterCoefficientMaker =
  C :: "nat \<Rightarrow> real"

text \<open>
  Modelled from the spec: \<^verbatim>\<open>limit_range\<close> (declared in \<^verbatim>\<open>vt_dsp/basic_dsp.h\<close>, outside
  the file) clamps its first argument to the interval given by the other two.
\<close>

definition limit_range :: "real \<Rightarrow> real \<Rightarrow> real \<Rightarrow> real" where
  "limit_range x low high = min (max x low) high"

subsection \<open>Frequency utility\<close>

definition clampedFrequency :: "globals \<Rightarrow> real \<Rightarrow> SurgeStorage \<Rightarrow> real" where
  "clampedFrequency g pitch storage =
     (let freq = note_to_pitch_ignoring_tuning storage (pitch + 69) * MIDI_0_FREQ g;
          freq = limit_range (to_float freq) (to_float 5)
                   (to_float (hz (dsamplerate_os g) * to_float 0.3))
      in freq)"

subsection \<open>Huovilainen model: coefficients\<close>

text \<open>The enumeration \<^verbatim>\<open>huov_coeffs\<close>.\<close>

definition h_cutoff :: nat where "h_cutoff = 0"
definition h_res :: nat where "h_res = 1"
definition h_thermal :: nat where "h_thermal = 2"
definition h_tune :: nat where "h_tune = 3"
definition h_acr :: nat where "h_acr = 4"
definition h_resquad :: nat where "h_resquad = 5"

definition Huov_makeCoefficients ::
  "globals \<Rightarrow> FilterCoefficientMaker \<Rightarrow> real \<Rightarrow> real \<Rightarrow> SurgeStorage \<Rightarrow> FilterCoefficientMaker" where
  "Huov_makeCoefficients g cm freq reso0 storage =
     (let cutoff = clampedFrequency g freq storage;
          cm = cm\<lparr>C := (C cm)(h_cutoff := cutoff)\<rparr>;
          reso = limit_range reso0 (to_float 0.0) (to_float 0.994);
          fc = cutoff * dsamplerate_os_inv g;
          f = fc * 0.5;
          fc2 = fc * fc;
          fc3 = fc * fc * fc;
          fcr = 1.8730 * fc3 + 0.4955 * fc2 - 0.6490 * fc + 0.9988;
          acr = - 3.9364 * fc2 + 1.8409 * fc + 0.9968;
          cm = cm\<lparr>C := (C cm)(h_acr := acr)\<rparr>;
          thermal = 0.000025;
          cm = cm\<lparr>C := (C cm)(h_thermal := thermal)\<rparr>;
          tune = (1.0 - exp (- ((2 * pi) * f * fcr))) / thermal;
          cm = cm\<lparr>C := (C cm)(h_tune := tune)\<rparr>;
          cm = cm\<lparr>C := (C cm)(h_res := reso)\<rparr>;
          cm = cm\<lparr>C := (C cm)(h_resquad := 4.0 * reso * acr)\<rparr>
      in cm)"

subsection \<open>Runge-Kutta model\<close>

text \<open>The enumeration \<^verbatim>\<open>rkm_coeffs\<close>.\<close>

definition rkm_cutoff :: nat where "rkm_cutoff = 0"
definition rkm_reso :: nat where "rkm_reso = 1"
definition rkm_sat :: nat where "rkm_sat = 2"
definition rkm_satinv :: nat where "rkm_satinv = 3"

definition RK_makeCoefficients ::
  "globals \<Rightarrow> FilterCoefficientMaker \<Rightarrow> real \<Rightarrow> real \<Rightarrow> SurgeStorage \<Rightarrow> FilterCoefficientMaker" where
  "RK_makeCoefficients g cm freq reso storage =
     (let pitch = clampedFrequency g freq storage;
          cm = cm\<lparr>C := (C cm)(rkm_cutoff := pitch * 2.0 * pi)\<rparr>;
          cm = cm\<lparr>C := (C cm)(rkm_reso := reso * 6)\<rparr>;
          cm = cm\<lparr>C := (C cm)(rkm_sat := to_float 3.0)\<rparr>;
          cm = cm\<lparr>C := (C cm)(rkm_satinv := to_float 0.3333333333)\<rparr>
      in cm)"

definition clip :: "real \<Rightarrow> real \<Rightarrow> real \<Rightarrow> real" where
  "clip val saturation saturationinverse =
     (let v2 = (if val * saturationinverse > 1 then 1
                else (if val * saturationinverse < - 1 then - 1
                      else val * saturationinverse))
      in saturation * (v2 - (1 / 3) * v2 * v2 * v2))"

text \<open>
  \<^verbatim>\<open>calculateDerivatives\<close> writes the four cells of \<^verbatim>\<open>dstate\<close>; the model returns the
  array written.
\<close>

definition calculateDerivatives ::
  "real \<Rightarrow> (nat \<Rightarrow> real) \<Rightarrow> (nat \<Rightarrow> real) \<Rightarrow> real \<Rightarrow> real \<Rightarrow> real \<Rightarrow> real \<Rightarrow> (nat \<Rightarrow> real)" where
  "calculateDerivatives input dstate state cutoff resonance saturation saturationInv =
     (let satstate0 = clip (state 0) saturation saturationInv;
          satstate1 = clip (state 1) saturation saturationInv;
          satstate2 = clip (state 2) saturation saturationInv;
          dstate = dstate(0 := cutoff * (clip (input - resonance * state 3) saturation saturationInv - satstate0));
          dstate = dstate(1 := cutoff * (satstate0 - satstate1));
          dstate = dstate(2 := cutoff * (satstate1 - satstate2));
          dstate = dstate(3 := cutoff * (satstate2 - clip (state 3) saturation saturationInv))
      in dstate)"

text \<open>\<^verbatim>\<open>rungekutteSolver\<close> updates \<^verbatim>\<open>state\<close> in place; the model returns it.\<close>

definition rungekutteSolver ::
  "globals \<Rightarrow> real \<Rightarrow> (nat \<Rightarrow> real) \<Rightarrow> real \<Rightarrow> real \<Rightarrow> real \<Rightarrow> real \<Rightarrow> (nat \<Rightarrow> real)" where
  "rungekutteSolver g input state cutoff resonance sat satInv =
     (let stepSize = dsamplerate_os_inv g;
          deriv1 = calculateDerivatives input uninit state cutoff resonance sat satInv;
          tempState = for_range 0 4 (\<lambda>i t. t(i := state i + 0.5 * stepSize * deriv1 i)) uninit;
          deriv2 = calculateDerivatives input uninit tempState cutoff resonance sat satInv;
          tempState = for_range 0 4 (\<lambda>i t. t(i := state i + 0.5 * stepSize * deriv2 i)) tempState;
          deriv3 = calculateDerivatives input uninit tempState cutoff resonance sat satInv;
          tempState = for_range 0 4 (\<lambda>i t. t(i := state i + stepSize * deriv3 i)) tempState;
          deriv4 = calculateDerivatives input uninit tempState cutoff resonance sat satInv;
          state = for_range 0 4
            (\<lambda>i s. s(i := s i + (1.0 / 6.0) * stepSize
                                * (deriv1 i + 2.0 * deriv2 i + 2.0 * deriv3 i + deriv4 i))) state
      in state)"

text \<open>
  The body of the lane loop of \<^verbatim>\<open>RK::process\<close> for an active lane \<open>v\<close>: the scalar
  step of the model on the registers of that lane. It yields the output of the lane
  and the four registers.
\<close>

definition RK_step ::
  "globals \<Rightarrow> real \<Rightarrow> (nat \<Rightarrow> real) \<Rightarrow> (nat \<Rightarrow> real) \<Rightarrow> real \<times> (nat \<Rightarrow> real)" where
  "RK_step g input coeff regs =
     (let dstate = for_range 0 4 (\<lambda>i d. d(i := regs i)) uninit;
          dstate = rungekutteSolver g input dstate
                     (coeff rkm_cutoff) (coeff rkm_reso) (coeff rkm_sat) (coeff rkm_satinv)
      in (dstate (4 - 1), dstate))"

text \<open>
  The lane loop shared in shape by the four \<^verbatim>\<open>process\<close> functions acts on the local
  arrays \<^verbatim>\<open>state\<close> and \<^verbatim>\<open>out\<close>. For \<^verbatim>\<open>RK::process\<close>:
\<close>

definition RK_lane ::
  "globals \<Rightarrow> (nat \<Rightarrow> real) \<Rightarrow> (nat \<Rightarrow> nat \<Rightarrow> real) \<Rightarrow> (nat \<Rightarrow> int) \<Rightarrow> nat
     \<Rightarrow> (nat \<Rightarrow> nat \<Rightarrow> real) \<times> (nat \<Rightarrow> real option) \<Rightarrow> (nat \<Rightarrow> nat \<Rightarrow> real) \<times> (nat \<Rightarrow> real option)" where
  "RK_lane g inp Cs act v s =
     (case s of (state, out) \<Rightarrow>
        if act v = 0 then (state, out)
        else
          (let r = RK_step g (inp v) (\<lambda>i. Cs i v) (\<lambda>i. state i v);
               out = out(v := Some (fst r));
               state = for_range 0 4 (\<lambda>i st. st(i := (st i)(v := snd r i))) state
           in (state, out)))"

definition RK_process ::
  "globals \<Rightarrow> QuadFilterUnitState \<Rightarrow> real m128 \<Rightarrow> real option m128 \<times> QuadFilterUnitState" where
  "RK_process g f inm =
     (let inp = mm_store_ps inm;
          Cs = for_range 0 4 (\<lambda>i c. c(i := mm_store_ps (QuadFilterUnitState.C f i))) (\<lambda>_. uninit);
          state = for_range 0 4 (\<lambda>i st. st(i := mm_store_ps (R f i))) (\<lambda>_. uninit);
          s = for_range 0 ssew (RK_lane g inp Cs (active f)) (state, \<lambda>_. None);
          outm = mm_load_ps (snd s);
          f = for_range 0 4 (\<lambda>i f. f\<lparr>R := (R f)(i := mm_load_ps (fst s i))\<rparr>) f
      in (outm, f))"

subsection \<open>Huovilainen model: step\<close>

text \<open>
  One round of the inner loop of \<^verbatim>\<open>Huov::processCore\<close>, on the variables
  \<^verbatim>\<open>input\<close>, \<^verbatim>\<open>stage\<close>, \<^verbatim>\<open>stageTanh\<close> and \<^verbatim>\<open>delay\<close>. The assignment to
  \<^verbatim>\<open>stageTanh[k-1]\<close> inside the expression touches a cell other than \<^verbatim>\<open>stageTanh[k]\<close>,
  so the order in which the two operands of the subtraction are evaluated does not
  matter.
\<close>

definition Huov_stage ::
  "real \<Rightarrow> real \<Rightarrow> nat
     \<Rightarrow> real \<times> (nat \<Rightarrow> real) \<times> (nat \<Rightarrow> real) \<times> (nat \<Rightarrow> real)
     \<Rightarrow> real \<times> (nat \<Rightarrow> real) \<times> (nat \<Rightarrow> real) \<times> (nat \<Rightarrow> real)" where
  "Huov_stage thermal tune k s =
     (case s of (input, stage, stageTanh, delay) \<Rightarrow>
        (let input = stage (k - 1);
             t = tanh (input * thermal);
             stageTanh = stageTanh(k - 1 := t);
             stage = stage(k := delay k + tune * (t - (if k \<noteq> 3 then stageTanh k
                                                       else tanh (delay k * thermal))));
             delay = delay(k := stage k)
         in (input, stage, stageTanh, delay)))"

text \<open>One round of the outer loop.\<close>

definition Huov_pass ::
  "real \<Rightarrow> real \<Rightarrow> real \<Rightarrow> real \<Rightarrow> nat
     \<Rightarrow> (nat \<Rightarrow> real) \<times> (nat \<Rightarrow> real) \<times> (nat \<Rightarrow> real)
     \<Rightarrow> (nat \<Rightarrow> real) \<times> (nat \<Rightarrow> real) \<times> (nat \<Rightarrow> real)" where
  "Huov_pass inp resQuad thermal tune j s =
     (case s of (stage, stageTanh, delay) \<Rightarrow>
        (let input = inp - resQuad * delay 5;
             stage = stage(0 := delay 0 + tune * (tanh (input * thermal) - stageTanh 0));
             delay = delay(0 := stage 0)
         in case for_range 1 4 (Huov_stage thermal tune) (input, stage, stageTanh, delay) of
              (input, stage, stageTanh, delay) \<Rightarrow>
                (let delay = delay(5 := (stage 3 + delay 4) * 0.5);
                     delay = delay(4 := stage 3)
                 in (stage, stageTanh, delay))))"

text \<open>
  \<^verbatim>\<open>Huov::processCore\<close> returns a value and updates its three arrays; the model
  returns the value and the three arrays.
\<close>

definition Huov_processCore ::
  "real \<Rightarrow> (nat \<Rightarrow> real) \<Rightarrow> (nat \<Rightarrow> real) \<Rightarrow> (nat \<Rightarrow> real) \<Rightarrow> (nat \<Rightarrow> real)
     \<Rightarrow> real \<times> (nat \<Rightarrow> real) \<times> (nat \<Rightarrow> real) \<times> (nat \<Rightarrow> real)" where
  "Huov_processCore inp coeff stage stageTanh delay =
     (let resQuad = coeff h_resquad;
          thermal = coeff h_thermal;
          tune = coeff h_tune
      in case for_range 0 2 (Huov_pass inp resQuad thermal tune) (stage, stageTanh, delay) of
           (stage, stageTanh, delay) \<Rightarrow> (delay 5, stage, stageTanh, delay))"

definition Huov_lane ::
  "(nat \<Rightarrow> real) \<Rightarrow> (nat \<Rightarrow> nat \<Rightarrow> real) \<Rightarrow> (nat \<Rightarrow> int) \<Rightarrow> nat
     \<Rightarrow> (nat \<Rightarrow> nat \<Rightarrow> real) \<times> (nat \<Rightarrow> real option) \<Rightarrow> (nat \<Rightarrow> nat \<Rightarrow> real) \<times> (nat \<Rightarrow> real option)" where
  "Huov_lane inp Cs act v s =
     (case s of (state, out) \<Rightarrow>
        if act v = 0 then (state, out)
        else
          (let stage = for_range 0 4 (\<lambda>i a. a(i := state i v)) uninit;
               stageTanh = for_range 0 3 (\<lambda>i a. a(i := state (i + 4) v)) uninit;
               delay = for_range 0 6 (\<lambda>i a. a(i := state (i + 7) v)) uninit;
               coeff = for_range 0 6 (\<lambda>i a. a(i := Cs i v)) uninit
           in case Huov_processCore (inp v) coeff stage stageTanh delay of
                (res, stage, stageTanh, delay) \<Rightarrow>
                  (let out = out(v := Some res);
                       state = for_range 0 4 (\<lambda>i st. st(i := (st i)(v := stage i))) state;
                       state = for_range 0 3 (\<lambda>i st. st(i + 4 := (st (i + 4))(v := stageTanh i))) state;
                       state = for_range 0 6 (\<lambda>i st. st(i + 7 := (st (i + 7))(v := delay i))) state
                   in (state, out))))"

definition Huov_process ::
  "QuadFilterUnitState \<Rightarrow> real m128 \<Rightarrow> real option m128 \<times> QuadFilterUnitState" where
  "Huov_process f inm =
     (let inp = mm_store_ps inm;
          Cs = for_range 0 6 (\<lambda>i c. c(i := mm_store_ps (QuadFilterUnitState.C f i))) (\<lambda>_. uninit);
          state = for_range 0 13 (\<lambda>i st. st(i := mm_store_ps (R f i))) (\<lambda>_. uninit);
          s = for_range 0 ssew (Huov_lane inp Cs (active f)) (state, \<lambda>_. None);
          outm = mm_load_ps (snd s);
          f = for_range 0 13 (\<lambda>i f. f\<lparr>R := (R f)(i := mm_load_ps (fst s i))\<rparr>) f
      in (outm, f))"

subsection \<open>Krajeski model\<close>

text \<open>The enumeration \<^verbatim>\<open>kj_coeffs\<close>.\<close>

definition k_cutoff :: nat where "k_cutoff = 0"
definition k_reso :: nat where "k_reso = 1"
definition k_wc :: nat where "k_wc = 2"
definition k_g :: nat where "k_g = 3"
definition k_gRes :: nat where "k_gRes = 4"
definition k_gComp :: nat where "k_gComp = 5"
definition k_drive :: nat where "k_drive = 6"

definition Kraj_makeCoefficients ::
  "globals \<Rightarrow> FilterCoefficientMaker \<Rightarrow> real \<Rightarrow> real \<Rightarrow> SurgeStorage \<Rightarrow> FilterCoefficientMaker" where
  "Kraj_makeCoefficients g cm freq reso0 storage =
     (let cutoff = clampedFrequency g freq storage;
          reso = reso0 * 1.3;
          cm = cm\<lparr>C := (C cm)(k_cutoff := cutoff)\<rparr>;
          cm = cm\<lparr>C := (C cm)(k_reso := reso)\<rparr>;
          cm = cm\<lparr>C := (C cm)(k_wc := 2 * pi * cutoff * dsamplerate_os_inv g)\<rparr>;
          wc = C cm k_wc;
          cm = cm\<lparr>C := (C cm)(k_g := 0.9892 * wc - 0.4342 * wc ^ 2 + 0.1381 * wc ^ 3 - 0.0202 * wc ^ 4)\<rparr>;
          cm = cm\<lparr>C := (C cm)(k_gRes := reso * (1.0029 + 0.0526 * wc - 0.926 * wc ^ 2 + 0.0218 * wc ^ 3))\<rparr>;
          cm = cm\<lparr>C := (C cm)(k_drive := to_float 1.0)\<rparr>;
          cm = cm\<lparr>C := (C cm)(k_gComp := to_float 1.0)\<rparr>
      in cm)"

text \<open>One round of the loop of \<^verbatim>\<open>Kraj::processCore\<close>, on \<^verbatim>\<open>state\<close> and \<^verbatim>\<open>delay\<close>.\<close>

definition Kraj_stage ::
  "real \<Rightarrow> nat \<Rightarrow> (nat \<Rightarrow> real) \<times> (nat \<Rightarrow> real) \<Rightarrow> (nat \<Rightarrow> real) \<times> (nat \<Rightarrow> real)" where
  "Kraj_stage gg i s =
     (case s of (state, delay) \<Rightarrow>
        (let state = state(i + 1 := gg * (0.3 / 1.3 * state i + 1 / 1.3 * delay i - state (i + 1))
                                    + state (i + 1));
             delay = delay(i := state i)
         in (state, delay)))"

definition Kraj_processCore ::
  "real \<Rightarrow> (nat \<Rightarrow> real) \<Rightarrow> (nat \<Rightarrow> real) \<Rightarrow> (nat \<Rightarrow> real)
     \<Rightarrow> real \<times> (nat \<Rightarrow> real) \<times> (nat \<Rightarrow> real)" where
  "Kraj_processCore inp coeff state delay =
     (let drive = coeff k_drive;
          gRes = coeff k_gRes;
          gComp = coeff k_gComp;
          gg = coeff k_g;
          state = state(0 := tanh (drive * (inp - 4 * gRes * (state 4 - gComp * inp))))
      in case for_range 0 4 (Kraj_stage gg) (state, delay) of
           (state, delay) \<Rightarrow> (state 4, state, delay))"

definition Kraj_lane ::
  "(nat \<Rightarrow> real) \<Rightarrow> (nat \<Rightarrow> nat \<Rightarrow> real) \<Rightarrow> (nat \<Rightarrow> int) \<Rightarrow> nat
     \<Rightarrow> (nat \<Rightarrow> nat \<Rightarrow> real) \<times> (nat \<Rightarrow> real option) \<Rightarrow> (nat \<Rightarrow> nat \<Rightarrow> real) \<times> (nat \<Rightarrow> real option)" where
  "Kraj_lane inp Cs act v s =
     (case s of (state, out) \<Rightarrow>
        if act v = 0 then (state, out)
        else
          (let sstate = for_range 0 5 (\<lambda>i a. a(i := state i v)) uninit;
               delay = for_range 0 5 (\<lambda>i a. a(i := state (i + 5) v)) uninit;
               coeff = for_range 0 7 (\<lambda>i a. a(i := Cs i v)) uninit
           in case Kraj_processCore (inp v) coeff sstate delay of
                (res, sstate, delay) \<Rightarrow>
                  (let out = out(v := Some res);
                       state = for_range 0 5 (\<lambda>i st. st(i := (st i)(v := sstate i))) state;
                       state = for_range 0 5 (\<lambda>i st. st(i + 5 := (st (i + 5))(v := delay i))) state
                   in (state, out))))"

definition Kraj_process ::
  "QuadFilterUnitState \<Rightarrow> real m128 \<Rightarrow> real option m128 \<times> QuadFilterUnitState" where
  "Kraj_process f inm =
     (let inp = mm_store_ps inm;
          Cs = for_range 0 7 (\<lambda>i c. c(i := mm_store_ps (QuadFilterUnitState.C f i))) (\<lambda>_. uninit);
          state = for_range 0 10 (\<lambda>i st. st(i := mm_store_ps (R f i))) (\<lambda>_. uninit);
          s = for_range 0 ssew (Kraj_lane inp Cs (active f)) (state, \<lambda>_. None);
          outm = mm_load_ps (snd s);
          f = for_range 0 10 (\<lambda>i f. f\<lparr>R := (R f)(i := mm_load_ps (fst s i))\<rparr>) f
      in (outm, f))"

subsection \<open>Improved model\<close>

text \<open>The enumeration \<^verbatim>\<open>imp_coeffs\<close> and the constant \<^verbatim>\<open>VT\<close>.\<close>

definition i_cutoff :: nat where "i_cutoff = 0"
definition i_reso :: nat where "i_reso = 1"
definition i_x :: nat where "i_x = 2"
definition i_g :: nat where "i_g = 3"
definition i_drive :: nat where "i_drive = 4"

definition VT :: real where "VT = 0.312"

definition Improved_makeCoefficients ::
  "globals \<Rightarrow> FilterCoefficientMaker \<Rightarrow> real \<Rightarrow> real \<Rightarrow> SurgeStorage \<Rightarrow> FilterCoefficientMaker" where
  "Improved_makeCoefficients g cm freq reso storage =
     (let cutoff = clampedFrequency g freq storage;
          cm = cm\<lparr>C := (C cm)(i_cutoff := cutoff)\<rparr>;
          cm = cm\<lparr>C := (C cm)(i_reso := reso * 4)\<rparr>;
          cm = cm\<lparr>C := (C cm)(i_x := pi * cutoff * dsamplerate_os_inv g)\<rparr>;
          cm = cm\<lparr>C := (C cm)(i_g := 4.0 * pi * VT * cutoff * (1.0 - C cm i_x) / (1.0 + C cm i_x))\<rparr>;
          cm = cm\<lparr>C := (C cm)(i_drive := to_float 1.0)\<rparr>
      in cm)"

definition Improved_processCore ::
  "globals \<Rightarrow> real \<Rightarrow> (nat \<Rightarrow> real) \<Rightarrow> (nat \<Rightarrow> real) \<Rightarrow> (nat \<Rightarrow> real) \<Rightarrow> (nat \<Rightarrow> real)
     \<Rightarrow> real \<times> (nat \<Rightarrow> real) \<times> (nat \<Rightarrow> real) \<times> (nat \<Rightarrow> real)" where
  "Improved_processCore g inp coeff V dV tV =
     (let drive = coeff i_drive;
          resonance = coeff i_reso;
          gg = coeff i_g;
          dV0 = - gg * (tanh ((drive * inp + resonance * V 3) / (2.0 * VT)) + tV 0);
          V = V(0 := V 0 + (dV0 + dV 0) * 0.5 * dsamplerate_os_inv g);
          dV = dV(0 := dV0);
          tV = tV(0 := tanh (V 0 / (2.0 * VT)));
          dV1 = gg * (tV 0 - tV 1);
          V = V(1 := V 1 + (dV1 + dV 1) * 0.5 * dsamplerate_os_inv g);
          dV = dV(1 := dV1);
          tV = tV(1 := tanh (V 1 / (2.0 * VT)));
          dV2 = gg * (tV 1 - tV 2);
          V = V(2 := V 2 + (dV2 + dV 2) * 0.5 * dsamplerate_os_inv g);
          dV = dV(2 := dV2);
          tV = tV(2 := tanh (V 2 / (2.0 * VT)));
          dV3 = gg * (tV 2 - tV 3);
          V = V(3 := V 3 + (dV3 + dV 3) * 0.5 * dsamplerate_os_inv g);
          dV = dV(3 := dV3);
          tV = tV(3 := tanh (V 3 / (2.0 * VT)))
      in (V 3, V, dV, tV))"

definition Improved_lane ::
  "globals \<Rightarrow> (nat \<Rightarrow> real) \<Rightarrow> (nat \<Rightarrow> nat \<Rightarrow> real) \<Rightarrow> (nat \<Rightarrow> int) \<Rightarrow> nat
     \<Rightarrow> (nat \<Rightarrow> nat \<Rightarrow> real) \<times> (nat \<Rightarrow> real option) \<Rightarrow> (nat \<Rightarrow> nat \<Rightarrow> real) \<times> (nat \<Rightarrow> real option)" where
  "Improved_lane g inp Cs act v s =
     (case s of (state, out) \<Rightarrow>
        if act v = 0 then (state, out)
        else
          (let V = for_range 0 4 (\<lambda>i a. a(i := state i v)) uninit;
               dV = for_range 0 4 (\<lambda>i a. a(i := state (i + 4) v)) uninit;
               tV = for_range 0 4 (\<lambda>i a. a(i := state (i + 8) v)) uninit;
               coeff = for_range 0 5 (\<lambda>i a. a(i := Cs i v)) uninit
           in case Improved_processCore g (inp v) coeff V dV tV of
                (res, V, dV, tV) \<Rightarrow>
                  (let out = out(v := Some res);
                       state = for_range 0 4 (\<lambda>i st. st(i := (st i)(v := V i))) state;
                       state = for_range 0 4 (\<lambda>i st. st(i + 4 := (st (i + 4))(v := dV i))) state;
                       state = for_range 0 4 (\<lambda>i st. st(i + 8 := (st (i + 8))(v := tV i))) state
                   in (state, out))))"

definition Improved_process ::
  "globals \<Rightarrow> QuadFilterUnitState \<Rightarrow> real m128 \<Rightarrow> real option m128 \<times> QuadFilterUnitState" where
  "Improved_process g f inm =
     (let inp = mm_store_ps inm;
          Cs = for_range 0 5 (\<lambda>i c. c(i := mm_store_ps (QuadFilterUnitState.C f i))) (\<lambda>_. uninit);
          state = for_range 0 12 (\<lambda>i st. st(i := mm_store_ps (R f i))) (\<lambda>_. uninit);
          s = for_range 0 ssew (Improved_lane g inp Cs (active f)) (state, \<lambda>_. None);
          outm = mm_load_ps (snd s);
          f = for_range 0 12 (\<lambda>i f. f\<lparr>R := (R f)(i := mm_load_ps (fst s i))\<rparr>) f
      in (outm, f))"

section \<open>Reference formulas\<close>

text \<open>
  The formulas of the specification, written independently of the code, against which
  the code is compared below.
\<close>

text \<open>The cubic soft clip \<open>S\<close>: clamp \<open>x / sat\<close> to \<open>[-1, 1]\<close>, then \<open>sat \<cdot> (v - v\<^sup>3 / 3)\<close>.\<close>

definition soft_clip :: "real \<Rightarrow> real \<Rightarrow> real" where
  "soft_clip sat x = (let v = max (- 1) (min 1 (x / sat)) in sat * (v - v ^ 3 / 3))"

text \<open>The right-hand side of the ladder equations, on the vector \<open>(y1, y2, y3, y4)\<close>.\<close>

definition ladder_ode :: "real \<Rightarrow> real \<Rightarrow> real \<Rightarrow> real \<Rightarrow> (nat \<Rightarrow> real) \<Rightarrow> (nat \<Rightarrow> real)" where
  "ladder_ode k r sat x y =
     (\<lambda>i. if i = 0 then k * (soft_clip sat (x - r * y 3) - soft_clip sat (y 0))
          else if i = 1 then k * (soft_clip sat (y 0) - soft_clip sat (y 1))
          else if i = 2 then k * (soft_clip sat (y 1) - soft_clip sat (y 2))
          else if i = 3 then k * (soft_clip sat (y 2) - soft_clip sat (y 3))
          else 0)"

text \<open>One step of size \<open>h\<close> of the classical Runge-Kutta method of order four for \<open>y' = f y\<close>.\<close>

definition rk4_step :: "real \<Rightarrow> ((nat \<Rightarrow> real) \<Rightarrow> (nat \<Rightarrow> real)) \<Rightarrow> (nat \<Rightarrow> real) \<Rightarrow> (nat \<Rightarrow> real)" where
  "rk4_step h f y =
     (let k1 = f y;
          k2 = f (\<lambda>i. y i + h / 2 * k1 i);
          k3 = f (\<lambda>i. y i + h / 2 * k2 i);
          k4 = f (\<lambda>i. y i + h * k3 i)
      in (\<lambda>i. y i + h / 6 * (k1 i + 2 * k2 i + 2 * k3 i + k4 i)))"

text \<open>
  One internal pass of the Huovilainen model as the specification words it: the
  feedback-corrected input, the four stages (the first three against their cached
  tanh, the last against the tanh of its own delayed value), the half-sample average
  into tap 5 and the new stage-3 output into tap 4.
\<close>

definition Huov_pass_formulas ::
  "real \<Rightarrow> real \<Rightarrow> real \<Rightarrow> real
     \<Rightarrow> (nat \<Rightarrow> real) \<times> (nat \<Rightarrow> real) \<times> (nat \<Rightarrow> real)
     \<Rightarrow> (nat \<Rightarrow> real) \<times> (nat \<Rightarrow> real) \<times> (nat \<Rightarrow> real)" where
  "Huov_pass_formulas inp resquad thermal tune s =
     (case s of (stage, stageTanh, delay) \<Rightarrow>
        (let input = inp - resquad * delay 5;
             y0 = delay 0 + tune * (tanh (input * thermal) - stageTanh 0);
             t0 = tanh (y0 * thermal);
             y1 = delay 1 + tune * (t0 - stageTanh 1);
             t1 = tanh (y1 * thermal);
             y2 = delay 2 + tune * (t1 - stageTanh 2);
             t2 = tanh (y2 * thermal);
             y3 = delay 3 + tune * (t2 - tanh (delay 3 * thermal))
         in (stage(0 := y0, 1 := y1, 2 := y2, 3 := y3),
             stageTanh(0 := t0, 1 := t1, 2 := t2),
             delay(0 := y0, 1 := y1, 2 := y2, 3 := y3, 5 := (y3 + delay 4) / 2, 4 := y3))))"

text \<open>
  One stage of the Improved model as the specification words it: the voltage moves by
  the mean of the new and the old derivative times the step, the new derivative is
  kept, and the cached tanh is refreshed with \<open>VT = 0.312\<close>.
\<close>

definition trapezoid_stage ::
  "real \<Rightarrow> nat \<Rightarrow> real \<Rightarrow> (nat \<Rightarrow> real) \<times> (nat \<Rightarrow> real) \<times> (nat \<Rightarrow> real)
     \<Rightarrow> (nat \<Rightarrow> real) \<times> (nat \<Rightarrow> real) \<times> (nat \<Rightarrow> real)" where
  "trapezoid_stage step i dV_new s =
     (case s of (V, dV, tV) \<Rightarrow>
        (let v = V i + (dV_new + dV i) / 2 * step
         in (V(i := v), dV(i := dV_new), tV(i := tanh (v / (2 * 0.312))))))"

subsection \<open>Concrete inputs\<close>

text \<open>A host running at 96 kHz internally.\<close>

definition host_96k :: globals where
  "host_96k = \<lparr>dsamplerate_os = sample_rate_of 96000, dsamplerate_os_inv = 1 / 96000,
               MIDI_0_FREQ = 8.17579891564371\<rparr>"

text \<open>
  A storage in standard tuning, where both conversions double the pitch every twelve
  keys, and a storage with a quarter-tone scale of 24 steps to the octave loaded,
  where the tuning-aware conversion doubles every 24 keys.
\<close>

definition standard_storage :: SurgeStorage where
  "standard_storage = \<lparr>note_to_pitch = (\<lambda>x. 2 powr (x / 12)),
                        note_to_pitch_ignoring_tuning = (\<lambda>x. 2 powr (x / 12))\<rparr>"

definition retuned_storage :: SurgeStorage where
  "retuned_storage = \<lparr>note_to_pitch = (\<lambda>x. 2 powr (x / 24)),
                       note_to_pitch_ignoring_tuning = (\<lambda>x. 2 powr (x / 12))\<rparr>"

definition zero_cm :: FilterCoefficientMaker where
  "zero_cm = \<lparr>C = (\<lambda>_. 0)\<rparr>"

text \<open>A voice batch in which only lane 0 is active.\<close>

definition lane0_only :: QuadFilterUnitState where
  "lane0_only = \<lparr>QuadFilterUnitState.C = (\<lambda>_. M128 1 1 1 1),
                  R = (\<lambda>i. M128 (real i) (real i + 1) (real i + 2) (real i + 3)),
                  active = (\<lambda>v. if v = 0 then 1 else 0)\<rparr>"

text \<open>Two arrays that differ from cell 8 on only.\<close>

definition ones :: "nat \<Rightarrow> real" where
  "ones = (\<lambda>_. 1)"

definition ones_then_twos :: "nat \<Rightarrow> real" where
  "ones_then_twos = (\<lambda>i. if i < 8 then 1 else 2)"

text \<open>Coefficients of the Runge-Kutta model with the saturation pair \<open>(2, 1/2)\<close>.\<close>

definition rk_coeff_2 :: "nat \<Rightarrow> real" where
  "rk_coeff_2 = (\<lambda>i. if i = 2 then 2 else if i = 3 then 1 / 2 else 1)"

section \<open>Properties\<close>

subsection \<open>Loops and arrays\<close>

lemma upt_1_4: "[1..<4] = [1, 2, 3]"
  by (simp add: upt_rec)

lemma upt_0_2: "[0..<2] = [0, 1]"
  by (simp add: upt_rec)

lemma upt_0_4: "[0..<4] = [0, 1, 2, 3]"
  by (simp add: upt_rec)

lemma for_range_0_2: "for_range 0 2 b s = b 1 (b 0 s)"
  by (simp add: for_range_def upt_0_2)

lemma for_range_0_4: "for_range 0 4 b s = b 3 (b 2 (b 1 (b 0 s)))"
  by (simp add: for_range_def upt_0_4)

lemma for_range_1_4: "for_range 1 4 b s = b 3 (b 2 (b 1 s))"
  by (simp only: for_range_def upt_1_4 fold_simps id_apply comp_apply)

lemma lt4: "(i::nat) < 4 \<longleftrightarrow> i = 0 \<or> i = 1 \<or> i = 2 \<or> i = 3"
  by auto

lemma fill4: "for_range 0 4 (\<lambda>i t. t(i := F i)) t0 = (\<lambda>i. if i < 4 then F i else t0 i)"
  unfolding for_range_0_4 by (auto simp add: fun_eq_iff lt4)

lemma lane_mm_load_ps: "v < 4 \<Longrightarrow> lane (mm_load_ps p) v = p v"
  by (auto simp add: mm_load_ps_def lt4)

lemma fold_fill: "fold (\<lambda>i st. st(i := G i)) xs st j = (if j \<in> set xs then G j else st j)"
  by (induction xs arbitrary: st rule: rev_induct) auto

lemma fold_load_R:
  "R (fold (\<lambda>i f. f\<lparr>R := (R f)(i := G i)\<rparr>) xs f) j = (if j \<in> set xs then G j else R f j)"
  by (induction xs arbitrary: f rule: rev_induct) auto

lemma fold_column_other:
  "w \<noteq> v \<Longrightarrow> fold (\<lambda>i st. st(F i := (st (F i))(w := G i))) xs state j v = state j v"
  by (induction xs arbitrary: state) auto

lemma column_other:
  "w \<noteq> v \<Longrightarrow> for_range lo hi (\<lambda>i st. st(F i := (st (F i))(w := G i))) state j v = state j v"
  unfolding for_range_def by (rule fold_column_other)

lemmas huov_coeffs_defs =
  h_cutoff_def h_res_def h_thermal_def h_tune_def h_acr_def h_resquad_def

lemmas rkm_coeffs_defs = rkm_cutoff_def rkm_reso_def rkm_sat_def rkm_satinv_def

subsection \<open>Rounding to single precision\<close>

lemma round_even_bounds:
  "y - 1 / 2 \<le> of_int (round_even y) \<and> of_int (round_even y) \<le> y + 1 / 2"
  unfolding round_even_def Let_def by (auto; linarith)

lemma to_float_binade:
  assumes x: "0 < x" and lo: "2 powr of_int e \<le> x" and hi: "x < 2 powr (of_int e + 1)"
  shows "to_float x = of_int (round_even (x / 2 powr (of_int e - 23))) * 2 powr (of_int e - 23)"
proof -
  have "\<lfloor>log 2 x\<rfloor> = e"
    using floor_log_eq_powr_iff [of x 2 e] x lo hi by simp
  with x show ?thesis by (simp add: to_float_def Let_def)
qed

lemma to_float_error:
  assumes x: "0 < x"
  shows "x * (1 - 1 / 2 ^ 24) \<le> to_float x \<and> to_float x \<le> x * (1 + 1 / 2 ^ 24)"
proof -
  define e where "e = \<lfloor>log 2 x\<rfloor>"
  define ulp :: real where "ulp = 2 powr (of_int e - 23)"
  have ulp0: "0 < ulp" by (simp add: ulp_def)
  have "2 powr of_int e \<le> x"
    using floor_log_eq_powr_iff [of x 2 e] x by (simp add: e_def)
  then have ulp: "ulp \<le> x / 2 ^ 23"
    by (simp add: ulp_def powr_diff divide_right_mono)
  have tf: "to_float x = of_int (round_even (x / ulp)) * ulp"
    using x by (simp add: to_float_def Let_def e_def ulp_def)
  have b: "x / ulp - 1 / 2 \<le> of_int (round_even (x / ulp))"
     "of_int (round_even (x / ulp)) \<le> x / ulp + 1 / 2"
    using round_even_bounds [of "x / ulp"] by simp_all
  have l: "(x / ulp - 1 / 2) * ulp \<le> to_float x"
    unfolding tf using b(1) ulp0 by (simp only: mult_right_mono less_imp_le)
  have u: "to_float x \<le> (x / ulp + 1 / 2) * ulp"
    unfolding tf using b(2) ulp0 by (simp only: mult_right_mono less_imp_le)
  have l': "(x / ulp - 1 / 2) * ulp = x - ulp / 2"
    using ulp0 by (simp add: field_simps)
  have u': "(x / ulp + 1 / 2) * ulp = x + ulp / 2"
    using ulp0 by (simp add: field_simps)
  from l u l' u' ulp show ?thesis by (simp add: field_simps)
qed

text \<open>The single-precision values of the constants of the code.\<close>

lemma to_float_0: "to_float 0 = 0"
  by (simp add: to_float_def)

lemma to_float_1: "to_float 1 = 1"
proof -
  have "to_float 1 = of_int (round_even (1 / 2 powr (of_int 0 - 23))) * 2 powr (of_int 0 - 23)"
    by (rule to_float_binade) simp_all
  also have "2 powr (of_int 0 - 23) = (1 / 2 ^ 23 :: real)"
    by (simp add: powr_minus powr_numeral)
  also have "round_even (1 / (1 / 2 ^ 23)) = 8388608"
    by (simp add: round_even_def Let_def)
  finally show ?thesis by simp
qed

lemma to_float_3: "to_float 3 = 3"
proof -
  have "to_float 3 = of_int (round_even (3 / 2 powr (of_int 1 - 23))) * 2 powr (of_int 1 - 23)"
    by (rule to_float_binade) (simp_all add: powr_numeral)
  also have "2 powr (of_int 1 - 23) = (1 / 2 ^ 22 :: real)"
    by (simp add: powr_minus powr_numeral)
  also have "round_even (3 / (1 / 2 ^ 22)) = 12582912"
    by (simp add: round_even_def Let_def)
  finally show ?thesis by simp
qed

lemma to_float_3_literal: "to_float 3.0 = 3"
  by (simp add: to_float_3)

lemma to_float_5: "to_float 5 = 5"
proof -
  have "to_float 5 = of_int (round_even (5 / 2 powr (of_int 2 - 23))) * 2 powr (of_int 2 - 23)"
    by (rule to_float_binade) (simp_all add: powr_numeral)
  also have "2 powr (of_int 2 - 23) = (1 / 2 ^ 21 :: real)"
    by (simp add: powr_minus powr_numeral)
  also have "round_even (5 / (1 / 2 ^ 21)) = 10485760"
    by (simp add: round_even_def Let_def)
  finally show ?thesis by simp
qed

lemma to_float_0_3: "to_float 0.3 = 5033165 / 16777216"
proof -
  have "to_float 0.3 =
      of_int (round_even (0.3 / 2 powr (of_int (- 2) - 23))) * 2 powr (of_int (- 2) - 23)"
    by (rule to_float_binade) (simp_all add: powr_minus)
  also have "2 powr (of_int (- 2) - 23) = (1 / 2 ^ 25 :: real)"
    by (simp add: powr_minus powr_numeral)
  also have "round_even (0.3 / (1 / 2 ^ 25)) = 10066330"
    by (simp add: round_even_def Let_def)
  finally show ?thesis by simp
qed

lemma to_float_0_994: "to_float 0.994 = 16676553 / 16777216"
proof -
  have "to_float 0.994 =
      of_int (round_even (0.994 / 2 powr (of_int (- 1) - 23))) * 2 powr (of_int (- 1) - 23)"
    by (rule to_float_binade) (simp_all add: powr_minus)
  also have "2 powr (of_int (- 1) - 23) = (1 / 2 ^ 24 :: real)"
    by (simp add: powr_minus powr_numeral)
  also have "round_even (0.994 / (1 / 2 ^ 24)) = 16676553"
    by (simp add: round_even_def Let_def)
  finally show ?thesis by simp
qed

lemma to_float_third: "to_float (1 / 3) = 11184811 / 33554432"
proof -
  have "to_float (1 / 3) =
      of_int (round_even ((1 / 3) / 2 powr (of_int (- 2) - 23))) * 2 powr (of_int (- 2) - 23)"
    by (rule to_float_binade) (simp_all add: powr_minus)
  also have "2 powr (of_int (- 2) - 23) = (1 / 2 ^ 25 :: real)"
    by (simp add: powr_minus powr_numeral)
  also have "round_even ((1 / 3) / (1 / 2 ^ 25)) = 11184811"
    by (simp add: round_even_def Let_def)
  finally show ?thesis by simp
qed

lemma to_float_third_literal: "to_float 0.3333333333 = 11184811 / 33554432"
proof -
  have "to_float 0.3333333333 =
      of_int (round_even (0.3333333333 / 2 powr (of_int (- 2) - 23))) * 2 powr (of_int (- 2) - 23)"
    by (rule to_float_binade) (simp_all add: powr_minus)
  also have "2 powr (of_int (- 2) - 23) = (1 / 2 ^ 25 :: real)"
    by (simp add: powr_minus powr_numeral)
  also have "round_even (0.3333333333 / (1 / 2 ^ 25)) = 11184811"
    by (simp add: round_even_def Let_def)
  finally show ?thesis by simp
qed

lemma to_float_bound_96k: "to_float (96000 * (5033165 / 16777216)) = 14745601 / 512"
proof -
  have "to_float (96000 * (5033165 / 16777216)) =
      of_int (round_even ((96000 * (5033165 / 16777216)) / 2 powr (of_int 14 - 23)))
        * 2 powr (of_int 14 - 23)"
    by (rule to_float_binade) (simp_all add: powr_numeral)
  also have "2 powr (of_int 14 - 23) = (1 / 2 ^ 9 :: real)"
    by (simp add: powr_minus powr_numeral)
  also have "round_even ((96000 * (5033165 / 16777216)) / (1 / 2 ^ 9)) = 14745601"
    by (simp add: round_even_def Let_def)
  finally show ?thesis by simp
qed

subsection \<open>Clamping\<close>

lemma limit_range_bounds:
  "low \<le> high \<Longrightarrow> low \<le> limit_range x low high \<and> limit_range x low high \<le> high"
  by (simp add: limit_range_def)

lemma limit_range_upper: "limit_range x low high \<le> high"
  by (simp add: limit_range_def)

lemma limit_range_above: "low \<le> high \<Longrightarrow> high \<le> x \<Longrightarrow> limit_range x low high = high"
  by (simp add: limit_range_def)

lemma limit_range_inside: "low \<le> x \<Longrightarrow> x \<le> high \<Longrightarrow> limit_range x low high = x"
  by (simp add: limit_range_def)

lemma hz_ge: "8000 \<le> hz r"
  using hz [of r] by simp

lemma hz_96k: "hz (dsamplerate_os host_96k) = 96000"
  by (simp add: host_96k_def sample_rate_of_inverse)

text \<open>
  The upper clamp of the frequency utility, \<^verbatim>\<open>(float)(dsamplerate_os * 0.3f)\<close>, is at
  least 5 and exceeds 0.3 times the rate by rounding only.
\<close>

lemma upper_clamp_bounds:
  "5 \<le> to_float (hz (dsamplerate_os g) * to_float 0.3)
   \<and> to_float (hz (dsamplerate_os g) * to_float 0.3) \<le> 0.3000001 * hz (dsamplerate_os g)"
proof -
  define r where "r = hz (dsamplerate_os g)"
  have r: "8000 \<le> r" by (simp add: r_def hz_ge)
  then have pos: "0 < r * (5033165 / 16777216)" by simp
  from to_float_error [OF pos] r show ?thesis
    unfolding to_float_0_3 r_def [symmetric] by simp
qed

lemma upper_clamp_96k:
  "to_float (hz (dsamplerate_os host_96k) * to_float 0.3) = 14745601 / 512"
  by (simp only: hz_96k to_float_0_3 to_float_bound_96k)

lemma clampedFrequency_unfold:
  "clampedFrequency g pitch storage =
     limit_range (to_float (note_to_pitch_ignoring_tuning storage (pitch + 69) * MIDI_0_FREQ g))
       5 (to_float (hz (dsamplerate_os g) * to_float 0.3))"
  by (simp add: clampedFrequency_def Let_def to_float_5)

subsection \<open>The lane loop leaves the other lanes alone\<close>

lemma fold_lanes_frame:
  assumes other: "\<And>w s. w \<noteq> v \<Longrightarrow> fst (body w s) j v = fst s j v \<and> snd (body w s) v = snd s v"
    and skip: "\<And>s. body v s = s"
  shows "fst (fold body ws s) j v = fst s j v \<and> snd (fold body ws s) v = snd s v"
proof (induction ws arbitrary: s)
  case Nil
  show ?case by simp
next
  case (Cons w ws)
  show ?case
  proof (cases "w = v")
    case True
    with Cons skip show ?thesis by simp
  next
    case False
    from other [OF False, of s] Cons [of "body w s"] show ?thesis by simp
  qed
qed

lemma process_frame:
  assumes other: "\<And>w s. w \<noteq> v \<Longrightarrow> fst (body w s) j v = fst s j v \<and> snd (body w s) v = snd s v"
    and skip: "\<And>s. body v s = s"
    and v: "v < 4"
  shows "lane (R (for_range 0 n (\<lambda>i f. f\<lparr>R := (R f)(i := mm_load_ps
                   (fst (for_range 0 ssew body
                      (for_range 0 n (\<lambda>i st. st(i := mm_store_ps (R f0 i))) (\<lambda>_. uninit), \<lambda>_. None)) i))\<rparr>) f0) j) v
           = lane (R f0 j) v
         \<and> lane (mm_load_ps (snd (for_range 0 ssew body
                      (for_range 0 n (\<lambda>i st. st(i := mm_store_ps (R f0 i))) (\<lambda>_. uninit), \<lambda>_. None)))) v = None"
  using fold_lanes_frame [of v body j, OF other skip] v
  by (simp add: for_range_def fold_load_R fold_fill lane_mm_load_ps mm_store_ps_def)

lemma RK_lane_other:
  "w \<noteq> v \<Longrightarrow> fst (RK_lane g inp Cs act w s) j v = fst s j v \<and> snd (RK_lane g inp Cs act w s) v = snd s v"
  by (cases s) (simp add: RK_lane_def Let_def column_other)

lemma RK_lane_skip: "act v = 0 \<Longrightarrow> RK_lane g inp Cs act v s = s"
  by (cases s) (simp add: RK_lane_def)

lemma Huov_lane_other:
  "w \<noteq> v \<Longrightarrow> fst (Huov_lane inp Cs act w s) j v = fst s j v \<and> snd (Huov_lane inp Cs act w s) v = snd s v"
  by (cases s) (simp add: Huov_lane_def Let_def column_other split: prod.split)

lemma Huov_lane_skip: "act v = 0 \<Longrightarrow> Huov_lane inp Cs act v s = s"
  by (cases s) (simp add: Huov_lane_def)

lemma Kraj_lane_other:
  "w \<noteq> v \<Longrightarrow> fst (Kraj_lane inp Cs act w s) j v = fst s j v \<and> snd (Kraj_lane inp Cs act w s) v = snd s v"
  by (cases s) (simp add: Kraj_lane_def Let_def column_other split: prod.split)

lemma Kraj_lane_skip: "act v = 0 \<Longrightarrow> Kraj_lane inp Cs act v s = s"
  by (cases s) (simp add: Kraj_lane_def)

lemma Improved_lane_other:
  "w \<noteq> v \<Longrightarrow> fst (Improved_lane g inp Cs act w s) j v = fst s j v
     \<and> snd (Improved_lane g inp Cs act w s) v = snd s v"
  by (cases s) (simp add: Improved_lane_def Let_def column_other split: prod.split)

lemma Improved_lane_skip: "act v = 0 \<Longrightarrow> Improved_lane g inp Cs act v s = s"
  by (cases s) (simp add: Improved_lane_def)

text \<open>
  C1. In each of the four batch-processing functions, a lane \<open>v\<close> whose flag
  \<open>active[v]\<close> is zero keeps every register value it had before the call, whatever
  the input vector, the coefficients and the other lanes are, and its cell of the
  output array is never written.
\<close>

theorem inactive_lane_untouched:
  assumes v: "v < ssew" and off: "active f v = 0"
  shows "lane (R (snd (RK_process g f inm)) j) v = lane (R f j) v
       \<and> lane (fst (RK_process g f inm)) v = None
       \<and> lane (R (snd (Huov_process f inm)) j) v = lane (R f j) v
       \<and> lane (fst (Huov_process f inm)) v = None
       \<and> lane (R (snd (Kraj_process f inm)) j) v = lane (R f j) v
       \<and> lane (fst (Kraj_process f inm)) v = None
       \<and> lane (R (snd (Improved_process g f inm)) j) v = lane (R f j) v
       \<and> lane (fst (Improved_process g f inm)) v = None"
proof -
  from v have v4: "v < 4" by (simp add: ssew_def)
  have rk: "lane (R (snd (RK_process g f inm)) j) v = lane (R f j) v
       \<and> lane (fst (RK_process g f inm)) v = None"
    unfolding RK_process_def Let_def fst_conv snd_conv
    by (rule process_frame) (simp_all add: RK_lane_other RK_lane_skip off v4)
  have hu: "lane (R (snd (Huov_process f inm)) j) v = lane (R f j) v
       \<and> lane (fst (Huov_process f inm)) v = None"
    unfolding Huov_process_def Let_def fst_conv snd_conv
    by (rule process_frame) (simp_all add: Huov_lane_other Huov_lane_skip off v4)
  have kr: "lane (R (snd (Kraj_process f inm)) j) v = lane (R f j) v
       \<and> lane (fst (Kraj_process f inm)) v = None"
    unfolding Kraj_process_def Let_def fst_conv snd_conv
    by (rule process_frame) (simp_all add: Kraj_lane_other Kraj_lane_skip off v4)
  have im: "lane (R (snd (Improved_process g f inm)) j) v = lane (R f j) v
       \<and> lane (fst (Improved_process g f inm)) v = None"
    unfolding Improved_process_def Let_def fst_conv snd_conv
    by (rule process_frame) (simp_all add: Improved_lane_other Improved_lane_skip off v4)
  from rk hu kr im show ?thesis by simp
qed

theorem inactive_lane_untouched_witness:
  "(1::nat) < ssew \<and> active lane0_only 1 = 0
   \<and> lane (R (snd (RK_process host_96k lane0_only (M128 1 2 3 4))) 2) 1 = 3
   \<and> lane (R (snd (Huov_process lane0_only (M128 1 2 3 4))) 2) 1 = 3
   \<and> lane (R (snd (Kraj_process lane0_only (M128 1 2 3 4))) 2) 1 = 3
   \<and> lane (R (snd (Improved_process host_96k lane0_only (M128 1 2 3 4))) 2) 1 = 3
   \<and> lane (fst (RK_process host_96k lane0_only (M128 1 2 3 4))) 1 = None"
proof -
  have a: "(1::nat) < ssew" by (simp add: ssew_def)
  have b: "active lane0_only 1 = 0" by (simp add: lane0_only_def)
  have c: "lane (R lane0_only 2) 1 = 3" by (simp add: lane0_only_def)
  from inactive_lane_untouched [OF a b, of host_96k "M128 1 2 3 4" 2] a b c
  show ?thesis by simp
qed

subsection \<open>Frequency utility and coefficients\<close>

text \<open>
  C2, as the code has it. For every pitch, \<open>clampedFrequency\<close> is the conversion that
  ignores the tuning, \<open>note_to_pitch_ignoring_tuning (pitch + 69)\<close> times
  \<open>MIDI_0_FREQ\<close>, in single precision, clamped to the interval from 5 to
  \<^verbatim>\<open>(float)(dsamplerate_os * 0.3f)\<close>. The result is always at least 5, hence strictly
  positive, and never exceeds that upper clamp, which may exceed 0.3 times the
  internal sample rate by rounding but never 0.3000001 times it. The function is
  total: no pitch is rejected.
\<close>

theorem clampedFrequency_clamped:
  "clampedFrequency g pitch storage =
     limit_range (to_float (note_to_pitch_ignoring_tuning storage (pitch + 69) * MIDI_0_FREQ g))
       5 (to_float (hz (dsamplerate_os g) * to_float 0.3))
   \<and> 5 \<le> clampedFrequency g pitch storage
   \<and> 0 < clampedFrequency g pitch storage
   \<and> clampedFrequency g pitch storage \<le> to_float (hz (dsamplerate_os g) * to_float 0.3)
   \<and> clampedFrequency g pitch storage \<le> 0.3000001 * hz (dsamplerate_os g)"
proof -
  let ?x = "to_float (note_to_pitch_ignoring_tuning storage (pitch + 69) * MIDI_0_FREQ g)"
  let ?u = "to_float (hz (dsamplerate_os g) * to_float 0.3)"
  have u: "5 \<le> ?u" "?u \<le> 0.3000001 * hz (dsamplerate_os g)"
    using upper_clamp_bounds [of g] by simp_all
  from limit_range_bounds [OF u(1), of ?x] u(2) show ?thesis
    unfolding clampedFrequency_unfold by simp
qed

text \<open>
  The claim C2 as stated fails. At 96 kHz, with a quarter-tone scale loaded and the
  pitch 75 (key 144), the tuning-aware conversion is 64 times \<open>MIDI_0_FREQ\<close>, about
  523 Hz, inside the interval; \<open>clampedFrequency\<close> converts without the tuning to
  4096 times \<open>MIDI_0_FREQ\<close> and returns its upper clamp 28800.001953125, which is
  more than 0.3 times 96000.
\<close>

theorem clampedFrequency_counterexample:
  "clampedFrequency host_96k 75 retuned_storage \<noteq>
     limit_range (note_to_pitch retuned_storage (75 + 69) * MIDI_0_FREQ host_96k)
       5 (0.3 * hz (dsamplerate_os host_96k))
   \<and> \<not> clampedFrequency host_96k 75 retuned_storage \<le> 0.3 * hz (dsamplerate_os host_96k)"
proof -
  define x :: real where "x = 4096 * 8.17579891564371"
  have pos: "0 < x" by (simp add: x_def)
  have "14745601 / 512 \<le> x * (1 - 1 / 2 ^ 24)" by (simp add: x_def)
  with to_float_error [OF pos] have big: "14745601 / 512 \<le> to_float x" by linarith
  have conv: "note_to_pitch_ignoring_tuning retuned_storage (75 + 69) * MIDI_0_FREQ host_96k = x"
    by (simp add: retuned_storage_def host_96k_def x_def)
  have v: "clampedFrequency host_96k 75 retuned_storage = 14745601 / 512"
    unfolding clampedFrequency_unfold conv upper_clamp_96k
  proof (rule limit_range_above)
    show "(5::real) \<le> 14745601 / 512" by simp
    show "14745601 / 512 \<le> to_float x" by (rule big)
  qed
  have t: "limit_range (note_to_pitch retuned_storage (75 + 69) * MIDI_0_FREQ host_96k)
       5 (0.3 * hz (dsamplerate_os host_96k)) = 64 * 8.17579891564371"
    unfolding hz_96k by (simp add: retuned_storage_def host_96k_def limit_range_def)
  show ?thesis
  proof (rule conjI)
    show "clampedFrequency host_96k 75 retuned_storage \<noteq>
        limit_range (note_to_pitch retuned_storage (75 + 69) * MIDI_0_FREQ host_96k)
          5 (0.3 * hz (dsamplerate_os host_96k))"
      unfolding v t by simp
    show "\<not> clampedFrequency host_96k 75 retuned_storage \<le> 0.3 * hz (dsamplerate_os host_96k)"
      unfolding v hz_96k by simp
  qed
qed

text \<open>
  C3, as the code has it. Whatever resonance is requested, the resonance coefficient
  derived by the Huovilainen model is the requested value clamped to the interval from
  0 to \<^verbatim>\<open>0.994f\<close>, the single-precision value 0.994000017642974853515625 of the
  literal; it is never above that value; and the coefficient \<open>resquad\<close> is four
  times the resonance coefficient times the coefficient \<open>acr\<close>.
\<close>

theorem Huov_makeCoefficients_resonance:
  "0 \<le> C (Huov_makeCoefficients g cm freq reso storage) h_res
   \<and> C (Huov_makeCoefficients g cm freq reso storage) h_res \<le> to_float 0.994
   \<and> to_float 0.994 = 16676553 / 16777216
   \<and> C (Huov_makeCoefficients g cm freq reso storage) h_res = limit_range reso 0 (to_float 0.994)
   \<and> C (Huov_makeCoefficients g cm freq reso storage) h_resquad =
       4 * C (Huov_makeCoefficients g cm freq reso storage) h_res
         * C (Huov_makeCoefficients g cm freq reso storage) h_acr"
proof -
  have b: "0 \<le> limit_range reso 0 (to_float 0.994)
      \<and> limit_range reso 0 (to_float 0.994) \<le> to_float 0.994"
    unfolding to_float_0_994 by (rule limit_range_bounds) simp
  have r: "C (Huov_makeCoefficients g cm freq reso storage) h_res
      = limit_range reso 0 (to_float 0.994)"
    by (simp add: Huov_makeCoefficients_def Let_def huov_coeffs_defs to_float_0)
  have q: "C (Huov_makeCoefficients g cm freq reso storage) h_resquad =
       4 * limit_range reso 0 (to_float 0.994)
         * C (Huov_makeCoefficients g cm freq reso storage) h_acr"
    by (simp add: Huov_makeCoefficients_def Let_def huov_coeffs_defs to_float_0)
  from b r q show ?thesis
    unfolding to_float_0_994 by simp
qed

text \<open>
  The claim C3 as stated fails: a requested resonance of 2 gives the resonance
  coefficient \<^verbatim>\<open>0.994f\<close>, which is 0.994000017642974853515625, above 0.994.
\<close>

theorem Huov_makeCoefficients_resonance_counterexample:
  "\<not> C (Huov_makeCoefficients host_96k zero_cm 3 2 standard_storage) h_res \<le> 0.994"
proof -
  have "C (Huov_makeCoefficients host_96k zero_cm 3 2 standard_storage) h_res
      = limit_range 2 0 (to_float 0.994)"
    by (simp add: Huov_makeCoefficients_def Let_def huov_coeffs_defs to_float_0)
  also have "\<dots> = 16676553 / 16777216"
    unfolding to_float_0_994 by (simp add: limit_range_def)
  finally show ?thesis by simp
qed

text \<open>
  C8, as the code has it. For every pitch and resonance, the coefficients derived by
  the Runge-Kutta model are: the cutoff, \<open>2\<pi>\<close> times the clamped frequency; the
  saturation pair 3 and one third, in single precision; and the resonance, six times
  the resonance requested, which lies between 0 and 6 whenever the resonance
  requested lies between 0 and 1.
\<close>

theorem RK_makeCoefficients_values:
  "C (RK_makeCoefficients g cm freq reso storage) rkm_cutoff = 2 * pi * clampedFrequency g freq storage
   \<and> C (RK_makeCoefficients g cm freq reso storage) rkm_sat = 3
   \<and> C (RK_makeCoefficients g cm freq reso storage) rkm_satinv = to_float (1 / 3)
   \<and> C (RK_makeCoefficients g cm freq reso storage) rkm_reso = 6 * reso
   \<and> (0 \<le> reso \<and> reso \<le> 1 \<longrightarrow>
        0 \<le> C (RK_makeCoefficients g cm freq reso storage) rkm_reso
        \<and> C (RK_makeCoefficients g cm freq reso storage) rkm_reso \<le> 6)"
  unfolding RK_makeCoefficients_def Let_def to_float_3_literal to_float_third
    to_float_third_literal
  by (simp add: rkm_coeffs_defs)

theorem RK_makeCoefficients_values_witness:
  "(0::real) \<le> 1 / 2 \<and> (1 / 2 :: real) \<le> 1
   \<and> C (RK_makeCoefficients host_96k zero_cm 3 (1 / 2) standard_storage) rkm_reso = 3
   \<and> C (RK_makeCoefficients host_96k zero_cm 3 (1 / 2) standard_storage) rkm_reso \<le> 6"
  using RK_makeCoefficients_values [of host_96k zero_cm 3 "1 / 2" standard_storage]
  by simp

text \<open>
  The claim C8 as stated fails: a requested resonance of 2 gives the resonance
  coefficient 12, outside the range from 0 to 6.
\<close>

theorem RK_makeCoefficients_range_counterexample:
  "\<not> (0 \<le> C (RK_makeCoefficients host_96k zero_cm 3 2 standard_storage) rkm_reso
      \<and> C (RK_makeCoefficients host_96k zero_cm 3 2 standard_storage) rkm_reso \<le> 6)"
  by (simp add: RK_makeCoefficients_def Let_def rkm_coeffs_defs)


subsection \<open>Runge-Kutta step\<close>

lemma clip_soft_clip: "clip x sat (1 / sat) = soft_clip sat x"
  by (simp add: clip_def soft_clip_def Let_def power3_eq_cube min_def max_def)

lemma calculateDerivatives_ode:
  "calculateDerivatives x d y k r sat (1 / sat) i =
     (if i < 4 then ladder_ode k r sat x y i else d i)"
  unfolding calculateDerivatives_def clip_soft_clip ladder_ode_def Let_def
  by (simp add: eval_nat_numeral)

lemma ladder_ode_cong:
  "y 0 = z 0 \<Longrightarrow> y 1 = z 1 \<Longrightarrow> y 2 = z 2 \<Longrightarrow> y 3 = z 3
     \<Longrightarrow> ladder_ode k r sat x y = ladder_ode k r sat x z"
  by (simp add: ladder_ode_def fun_eq_iff)

lemma ladder_ode_high: "4 \<le> i \<Longrightarrow> ladder_ode k r sat x y i = 0"
  by (simp add: ladder_ode_def)

lemma rungekutteSolver_rk4:
  "rungekutteSolver g x y k r sat (1 / sat) =
     rk4_step (dsamplerate_os_inv g) (ladder_ode k r sat x) y"
proof -
  define h where "h = dsamplerate_os_inv g"
  define f where "f = ladder_ode k r sat x"
  define k1 where "k1 = f y"
  define k2 where "k2 = f (\<lambda>i. y i + h / 2 * k1 i)"
  define k3 where "k3 = f (\<lambda>i. y i + h / 2 * k2 i)"
  define k4 where "k4 = f (\<lambda>i. y i + h * k3 i)"
  define d1 where "d1 = calculateDerivatives x uninit y k r sat (1 / sat)"
  define t1 where "t1 = for_range 0 4 (\<lambda>i t. t(i := y i + 0.5 * h * d1 i)) uninit"
  define d2 where "d2 = calculateDerivatives x uninit t1 k r sat (1 / sat)"
  define t2 where "t2 = for_range 0 4 (\<lambda>i t. t(i := y i + 0.5 * h * d2 i)) t1"
  define d3 where "d3 = calculateDerivatives x uninit t2 k r sat (1 / sat)"
  define t3 where "t3 = for_range 0 4 (\<lambda>i t. t(i := y i + h * d3 i)) t2"
  define d4 where "d4 = calculateDerivatives x uninit t3 k r sat (1 / sat)"
  have d1: "i < 4 \<Longrightarrow> d1 i = k1 i" for i
    by (simp add: d1_def k1_def f_def calculateDerivatives_ode)
  have t1: "i < 4 \<Longrightarrow> t1 i = y i + h / 2 * k1 i" for i
    by (simp add: t1_def fill4 d1)
  have d2: "i < 4 \<Longrightarrow> d2 i = k2 i" for i
    unfolding d2_def k2_def f_def calculateDerivatives_ode
    using ladder_ode_cong [of t1 "\<lambda>i. y i + h / 2 * k1 i" k r sat x] by (simp add: t1)
  have t2: "i < 4 \<Longrightarrow> t2 i = y i + h / 2 * k2 i" for i
    by (simp add: t2_def fill4 d2)
  have d3: "i < 4 \<Longrightarrow> d3 i = k3 i" for i
    unfolding d3_def k3_def f_def calculateDerivatives_ode
    using ladder_ode_cong [of t2 "\<lambda>i. y i + h / 2 * k2 i" k r sat x] by (simp add: t2)
  have t3: "i < 4 \<Longrightarrow> t3 i = y i + h * k3 i" for i
    by (simp add: t3_def fill4 d3)
  have d4: "i < 4 \<Longrightarrow> d4 i = k4 i" for i
    unfolding d4_def k4_def f_def calculateDerivatives_ode
    using ladder_ode_cong [of t3 "\<lambda>i. y i + h * k3 i" k r sat x] by (simp add: t3)
  have hi: "4 \<le> i \<Longrightarrow> k1 i = 0 \<and> k2 i = 0 \<and> k3 i = 0 \<and> k4 i = 0" for i
    by (simp add: k1_def k2_def k3_def k4_def f_def ladder_ode_high)
  have code: "rungekutteSolver g x y k r sat (1 / sat) =
      for_range 0 4 (\<lambda>i s. s(i := s i + (1.0 / 6.0) * h * (d1 i + 2.0 * d2 i + 2.0 * d3 i + d4 i))) y"
    by (simp only: rungekutteSolver_def Let_def h_def d1_def t1_def d2_def t2_def d3_def t3_def d4_def)
  have upd: "for_range 0 4 (\<lambda>i s. s(i := s i + F i)) y = (\<lambda>i. if i < 4 then y i + F i else y i)" for F
    unfolding for_range_0_4 by (auto simp add: fun_eq_iff lt4)
  have spec: "rk4_step h f y = (\<lambda>i. y i + h / 6 * (k1 i + 2 * k2 i + 2 * k3 i + k4 i))"
    by (simp only: rk4_step_def Let_def k1_def k2_def k3_def k4_def)
  show ?thesis
    unfolding code upd h_def [symmetric] f_def [symmetric] spec
  proof
    fix i
    show "(if i < 4 then y i + 1.0 / 6.0 * h * (d1 i + 2.0 * d2 i + 2.0 * d3 i + d4 i) else y i)
           = y i + h / 6 * (k1 i + 2 * k2 i + 2 * k3 i + k4 i)"
    proof (cases "i < 4")
      case True
      then show ?thesis by (simp add: d1 d2 d3 d4)
    next
      case False
      then have "4 \<le> i" by simp
      from hi [OF this] False show ?thesis by simp
    qed
  qed
qed

text \<open>
  C4. For every input, every coefficient vector whose saturation pair is
  \<open>(sat, 1/sat)\<close> and every prior state, the scalar step of the Runge-Kutta model is
  one classical fourth-order Runge-Kutta step of the ladder equations with the cubic
  soft clip, of step size \<open>dsamplerate_os_inv\<close> (one internal sample period), taken
  from the four registers of the lane; the output of the lane is the updated \<open>y4\<close>.
\<close>

theorem RK_step_is_rk4:
  assumes "coeff rkm_satinv = 1 / coeff rkm_sat"
  shows "RK_step g x coeff regs =
     (let y = rk4_step (dsamplerate_os_inv g)
                (ladder_ode (coeff rkm_cutoff) (coeff rkm_reso) (coeff rkm_sat) x)
                (\<lambda>i. if i < 4 then regs i else 0)
      in (y 3, y))"
proof -
  have cp: "for_range 0 4 (\<lambda>i d. d(i := regs i)) uninit = (\<lambda>i. if i < 4 then regs i else 0)"
    by (simp add: fill4 uninit_def)
  show ?thesis
    unfolding RK_step_def cp assms rungekutteSolver_rk4 by (simp add: Let_def)
qed

theorem RK_step_is_rk4_witness:
  "rk_coeff_2 rkm_satinv = 1 / rk_coeff_2 rkm_sat
   \<and> RK_step host_96k 1 rk_coeff_2 ones =
      (let y = rk4_step (dsamplerate_os_inv host_96k)
                 (ladder_ode (rk_coeff_2 rkm_cutoff) (rk_coeff_2 rkm_reso) (rk_coeff_2 rkm_sat) 1)
                 (\<lambda>i. if i < 4 then ones i else 0)
       in (y 3, y))"
proof -
  have s: "rk_coeff_2 rkm_satinv = 1 / rk_coeff_2 rkm_sat"
    by (simp add: rk_coeff_2_def rkm_coeffs_defs)
  from RK_step_is_rk4 [OF s, of host_96k 1 ones] s show ?thesis by simp
qed

subsection \<open>Huovilainen step\<close>

lemma Huov_pass_eq:
  "Huov_pass inp resQuad thermal tune j s = Huov_pass_formulas inp resQuad thermal tune s"
  unfolding Huov_pass_def Huov_pass_formulas_def for_range_1_4
  by (cases s) (simp add: Huov_stage_def Let_def eval_nat_numeral)

lemma Huov_processCore_unfold:
  "Huov_processCore inp coeff stage stageTanh delay =
     (case Huov_pass_formulas inp (coeff h_resquad) (coeff h_thermal) (coeff h_tune)
             (Huov_pass_formulas inp (coeff h_resquad) (coeff h_thermal) (coeff h_tune)
                (stage, stageTanh, delay)) of
        (stage', stageTanh', delay') \<Rightarrow> (delay' 5, stage', stageTanh', delay'))"
  unfolding Huov_processCore_def for_range_0_2 Huov_pass_eq Let_def ..

lemma Huov_pass_formulas_sync:
  "Huov_pass_formulas inp q th tu s = (stage', stageTanh', delay') \<Longrightarrow> k < 4
     \<Longrightarrow> delay' k = stage' k"
  by (cases s) (auto simp add: Huov_pass_formulas_def Let_def lt4)

text \<open>
  C5. For every input, coefficients and prior registers, the scalar step of the
  Huovilainen model is the internal pass run exactly twice on the registers, each
  pass being the one the specification describes (feedback-corrected input, stage 0
  against its cached tanh, stages 1 and 2 against theirs, stage 3 against the freshly
  computed tanh of \<open>delay[3]\<close>, the average into \<open>delay[5]\<close>, the new stage-3 output
  into \<open>delay[4]\<close>), and the value returned is \<open>delay[5]\<close> after the second pass.
\<close>

theorem Huov_processCore_two_passes:
  "Huov_processCore inp coeff stage stageTanh delay =
     (case Huov_pass_formulas inp (coeff h_resquad) (coeff h_thermal) (coeff h_tune)
             (Huov_pass_formulas inp (coeff h_resquad) (coeff h_thermal) (coeff h_tune)
                (stage, stageTanh, delay)) of
        (stage', stageTanh', delay') \<Rightarrow> (delay' 5, stage', stageTanh', delay'))"
  by (rule Huov_processCore_unfold)

text \<open>
  C10. After every scalar step of the Huovilainen model, whatever the registers were
  before, \<open>delay[k] = stage[k]\<close> for every stage index \<open>k\<close> from 0 to 3.
\<close>

theorem Huov_delay_stage_sync:
  assumes "k < 4"
  shows "(case Huov_processCore inp coeff stage stageTanh delay of
            (res, stage', stageTanh', delay') \<Rightarrow> delay' k = stage' k)"
proof -
  obtain a b c where e: "Huov_pass_formulas inp (coeff h_resquad) (coeff h_thermal) (coeff h_tune)
             (Huov_pass_formulas inp (coeff h_resquad) (coeff h_thermal) (coeff h_tune)
                (stage, stageTanh, delay)) = (a, b, c)"
    by (metis prod_cases3)
  from Huov_pass_formulas_sync [OF e assms] show ?thesis
    unfolding Huov_processCore_unfold e by simp
qed

theorem Huov_delay_stage_sync_witness:
  "(2::nat) < 4
   \<and> (case Huov_processCore 1 ones ones ones_then_twos ones of
         (res, stage', stageTanh', delay') \<Rightarrow> delay' 2 = stage' 2)"
  using Huov_delay_stage_sync [of 2 1 ones ones ones_then_twos ones]
  by simp

subsection \<open>Krajeski step\<close>

lemma Kraj_processCore_unfold:
  "Kraj_processCore inp coeff state delay =
     (let s0 = tanh (coeff k_drive * (inp - 4 * coeff k_gRes * (state 4 - coeff k_gComp * inp)));
          s1 = coeff k_g * (0.3 / 1.3 * s0 + 1 / 1.3 * delay 0 - state 1) + state 1;
          s2 = coeff k_g * (0.3 / 1.3 * s1 + 1 / 1.3 * delay 1 - state 2) + state 2;
          s3 = coeff k_g * (0.3 / 1.3 * s2 + 1 / 1.3 * delay 2 - state 3) + state 3;
          s4 = coeff k_g * (0.3 / 1.3 * s3 + 1 / 1.3 * delay 3 - state 4) + state 4
      in (s4, state(0 := s0, 1 := s1, 2 := s2, 3 := s3, 4 := s4),
              delay(0 := s0, 1 := s1, 2 := s2, 3 := s3)))"
  unfolding Kraj_processCore_def for_range_0_4
  by (simp add: Kraj_stage_def Let_def eval_nat_numeral)

text \<open>
  C6. For every input, coefficients and prior registers, the scalar step of the
  Krajeski model sets \<open>state[0]\<close> to \<open>tanh (drive \<cdot> (in - 4 \<cdot> gRes \<cdot> (state[4] - gComp \<cdot> in)))\<close>,
  then for \<open>i\<close> from 0 to 3 sets \<open>state[i+1]\<close> to
  \<open>state[i+1] + g \<cdot> (0.3/1.3 \<cdot> state[i] + 1/1.3 \<cdot> delay[i] - state[i+1])\<close>, where
  \<open>state[i]\<close> is the new value and \<open>delay[i]\<close>, \<open>state[i+1]\<close> the prior ones, sets
  \<open>delay[i]\<close> to the new \<open>state[i]\<close>, and returns the new \<open>state[4]\<close>.
\<close>

theorem Kraj_processCore_stages:
  "Kraj_processCore inp coeff state delay =
     (let s0 = tanh (coeff k_drive * (inp - 4 * coeff k_gRes * (state 4 - coeff k_gComp * inp)));
          s1 = state 1 + coeff k_g * (0.3 / 1.3 * s0 + 1 / 1.3 * delay 0 - state 1);
          s2 = state 2 + coeff k_g * (0.3 / 1.3 * s1 + 1 / 1.3 * delay 1 - state 2);
          s3 = state 3 + coeff k_g * (0.3 / 1.3 * s2 + 1 / 1.3 * delay 2 - state 3);
          s4 = state 4 + coeff k_g * (0.3 / 1.3 * s3 + 1 / 1.3 * delay 3 - state 4)
      in (s4, state(0 := s0, 1 := s1, 2 := s2, 3 := s3, 4 := s4),
              delay(0 := s0, 1 := s1, 2 := s2, 3 := s3)))"
  unfolding Kraj_processCore_unfold by (simp only: add.commute)

subsection \<open>Improved step\<close>

text \<open>
  C7. For every input, coefficients and prior registers, the scalar step of the
  Improved model runs the four stages in order: the derivative of stage 0 is
  \<open>- g \<cdot> (tanh ((drive \<cdot> in + resonance \<cdot> V[3]) / (2 \<cdot> VT)) + tV[0])\<close> on the prior
  registers, that of stage \<open>i\<close> from 1 to 3 is \<open>g \<cdot> (tV[i-1] - tV[i])\<close> with \<open>tV[i-1]\<close>
  already refreshed by the stage before; each stage integrates by the mean of the new
  and the old derivative times \<open>dsamplerate_os_inv\<close>, stores the new derivative and
  refreshes \<open>tV[i]\<close> with \<open>VT = 0.312\<close>; the value returned is the new \<open>V[3]\<close>.
\<close>

theorem Improved_processCore_stages:
  "Improved_processCore g inp coeff V dV tV =
     (let gg = coeff i_g;
          step = dsamplerate_os_inv g;
          s0 = trapezoid_stage step 0
                 (- gg * (tanh ((coeff i_drive * inp + coeff i_reso * V 3) / (2 * 0.312)) + tV 0))
                 (V, dV, tV);
          s1 = trapezoid_stage step 1 (gg * (snd (snd s0) 0 - snd (snd s0) 1)) s0;
          s2 = trapezoid_stage step 2 (gg * (snd (snd s1) 1 - snd (snd s1) 2)) s1;
          s3 = trapezoid_stage step 3 (gg * (snd (snd s2) 2 - snd (snd s2) 3)) s2
      in (fst s3 3, s3))"
  unfolding Improved_processCore_def trapezoid_stage_def VT_def
  by (simp add: Let_def)

end
